theory Spec2Isabelle
  imports Main "HOL-Library.Sublist"
begin

section \<open>Values shared by the controller and the notifier\<close>

text \<open>
  Go errors are values. \<open>Errorf ctx e\<close> stands for \<^verbatim>\<open>fmt.Errorf(ctx + ": %w", e)\<close>,
  \<open>ErrNoConfigFile\<close> for the package's sentinel of that name.
\<close>

datatype error = ErrNoConfigFile | Err string | Errorf string error

text \<open>A record written to a \<^verbatim>\<open>*slog.Logger\<close>: level, message, attributes.\<close>

datatype level = Debug | Info | Warn

datatype attr = ErrorAttr string error | StringAttr string string | StringsAttr string "string list"

datatype log_entry = LogEntry level string "attr list"

text \<open>
  Every invocation of a method of an external collaborator is recorded, oldest first:
  the loader's \<^verbatim>\<open>Load\<close>, the configuration's own \<^verbatim>\<open>UpdateConfig\<close>, a registered
  service's \<^verbatim>\<open>UpdateConfig\<close> (by the service's identity), an aborter's \<^verbatim>\<open>Abort\<close>
  (identity and error), and the watcher's \<^verbatim>\<open>Add\<close> (the file name).
\<close>

datatype call =
    LoadCall
  | ConfigUpdateCall
  | UpdateConfigCall nat
  | AbortCall nat error
  | AddCall string

text \<open>
  The world outside the package: the state \<open>ext\<close> of the external objects (loader,
  services, aborters, file system), the calls made to them, the log, and the closures
  handed to \<^verbatim>\<open>time.AfterFunc\<close> that have not run yet, each as its delay in
  nanoseconds and the attempt number its \<^verbatim>\<open>readdWatcher\<close> closure was built with.
\<close>

record 'x World =
  ext :: 'x
  calls :: "call list"
  log :: "log_entry list"
  timers :: "(int \<times> nat) list"

definition logf :: "level \<Rightarrow> string \<Rightarrow> attr list \<Rightarrow> 'x World \<Rightarrow> 'x World" where
  "logf lv msg attrs w = w\<lparr>log := log w @ [LogEntry lv msg attrs]\<rparr>"

definition called :: "call \<Rightarrow> 'x World \<Rightarrow> 'x World" where
  "called c w = w\<lparr>calls := calls w @ [c]\<rparr>"

section \<open>The strings functions the controller uses\<close>

text \<open>\<^verbatim>\<open>strings.HasPrefix\<close>, \<^verbatim>\<open>strings.HasSuffix\<close>, \<^verbatim>\<open>strings.CutSuffix\<close>, \<^verbatim>\<open>strings.Join\<close>.\<close>

definition HasPrefix :: "string \<Rightarrow> string \<Rightarrow> bool" where
  "HasPrefix s pre = (length s \<ge> length pre \<and> take (length pre) s = pre)"

definition HasSuffix :: "string \<Rightarrow> string \<Rightarrow> bool" where
  "HasSuffix s suf = (length s \<ge> length suf \<and> drop (length s - length suf) s = suf)"

definition CutSuffix :: "string \<Rightarrow> string \<Rightarrow> string \<times> bool" where
  "CutSuffix s suf =
     (if HasSuffix s suf then (take (length s - length suf) s, True) else (s, False))"

fun Join :: "string list \<Rightarrow> string \<Rightarrow> string" where
  "Join [] sep = []"
| "Join [e] sep = e"
| "Join (e # es) sep = e @ sep @ Join es sep"

section \<open>control.go\<close>

text \<open>
  \<^verbatim>\<open>Configuration\<close> is \<^verbatim>\<open>any\<close>: a value of the application's type \<open>'c\<close>, or the nil
  interface (\<open>None\<close>). A \<^verbatim>\<open>ConfigLoader\<close> is an interface value: its two methods, acting on
  the external state. \<^verbatim>\<open>Load\<close> returns a configuration or an error.
\<close>

record ('c, 'x) ConfigLoader =
  Filename :: "'x \<Rightarrow> string"
  Load :: "'x \<Rightarrow> (error + 'c option) \<times> 'x"

text \<open>
  \<^verbatim>\<open>diff.Diff\<close> of \<^verbatim>\<open>github.com/r3labs/diff\<close> is a dependency, taken as a parameter: it
  returns a changelog or an error. Of a \<^verbatim>\<open>diff.Change\<close> the controller reads the path only.
\<close>

datatype Change = Change (Path: "string list")

type_synonym 'c Differ = "'c option \<Rightarrow> 'c option \<Rightarrow> error + Change list"

text \<open>
  The \<^verbatim>\<open>Control\<close> struct. The mutex is left out (calls are sequential here) and the
  logger writes to the world's log.
\<close>

record ('c, 'x) Control =
  changed :: "string list"
  loader :: "('c, 'x) ConfigLoader"
  current :: "'c option"
  previous :: "'c option"

definition readConfig ::
  "'c Differ \<Rightarrow> ('c, 'x) Control \<Rightarrow> 'x World \<Rightarrow> error option \<times> ('c, 'x) Control \<times> 'x World" where
  "readConfig Diff ctrl w =
     (case Load (loader ctrl) (ext w) of
        (res, x') \<Rightarrow>
          let w1 = called LoadCall (w\<lparr>ext := x'\<rparr>) in
          (case res of
             Inl err \<Rightarrow> (Some (Errorf ''loading configuration'' err), ctrl, w1)
           | Inr config \<Rightarrow>
               let ctrl1 = ctrl\<lparr>previous := current ctrl, current := config\<rparr> in
               if previous ctrl1 = None then (None, ctrl1\<lparr>changed := [''*'']\<rparr>, w1)
               else
                 (case Diff (previous ctrl1) (current ctrl1) of
                    Inl err \<Rightarrow>
                      (None, ctrl1,
                       logf Warn ''change diff unsuccessful'' [ErrorAttr ''error'' err] w1)
                  | Inr changelog \<Rightarrow>
                      if length changelog < 1 then (None, ctrl1\<lparr>changed := []\<rparr>, w1)
                      else
                        let ctrl2 =
                              ctrl1\<lparr>changed :=
                                foldl (\<lambda>acc change. acc @ [Join (Path change) ''.'']) [] changelog\<rparr>
                        in (None, ctrl2,
                            logf Debug ''configuration changed''
                              [StringsAttr ''changed'' (changed ctrl2)] w1))))"

definition New ::
  "'c Differ \<Rightarrow> ('c, 'x) ConfigLoader option \<Rightarrow> 'x World \<Rightarrow> (error + ('c, 'x) Control) \<times> 'x World" where
  "New Diff ld w =
     (case ld of
        None \<Rightarrow> (Inl ErrNoConfigFile, w)
      | Some l \<Rightarrow>
          let fileName = Filename l (ext w) in
          if length fileName < 1 then (Inl ErrNoConfigFile, w)
          else
            (case readConfig Diff \<lparr>changed = [], loader = l, current = None, previous = None\<rparr> w of
               (Some err, _, w') \<Rightarrow> (Inl err, w')
             | (None, ctrl, w') \<Rightarrow> (Inr ctrl, w')))"

definition filename :: "('c, 'x) Control \<Rightarrow> 'x World \<Rightarrow> string" where
  "filename ctrl w = Filename (loader ctrl) (ext w)"

definition Config :: "('c, 'x) Control \<Rightarrow> 'c option" where
  "Config ctrl = current ctrl"

text \<open>
  The loop of \<^verbatim>\<open>IsChanged\<close> over \<^verbatim>\<open>ctrl.changed\<close>, with the comparison \<open>op\<close> chosen
  before it.
\<close>

fun IsChanged_loop :: "(string \<Rightarrow> bool) \<Rightarrow> string list \<Rightarrow> bool" where
  "IsChanged_loop op [] = False"
| "IsChanged_loop op (entry # rest) =
     (if entry = ''*'' then True
      else if op entry then True
      else IsChanged_loop op rest)"

definition IsChanged :: "('c, 'x) Control \<Rightarrow> string \<Rightarrow> bool" where
  "IsChanged ctrl item =
     (case CutSuffix item ''.*'' of
        (snippy, True) \<Rightarrow>
          (let item' = snippy @ ''.'' in
           IsChanged_loop (\<lambda>entry. HasPrefix entry item') (changed ctrl))
      | (_, False) \<Rightarrow> IsChanged_loop (\<lambda>entry. item = entry) (changed ctrl))"

section \<open>notify.go\<close>

text \<open>
  The two interfaces. A registered object carries an identity, by which its calls are
  recorded; its method acts on the external state. \<^verbatim>\<open>UpdateConfig\<close> receives the
  controller; the context it also receives is passed through unread and is left out.
\<close>

record ('c, 'x) Updateable =
  service :: nat
  UpdateConfig :: "('c, 'x) Control \<Rightarrow> 'x \<Rightarrow> error option \<times> 'x"

record 'x Aborter =
  aborter :: nat
  Abort :: "error \<Rightarrow> 'x \<Rightarrow> 'x"

text \<open>
  The type assertion \<^verbatim>\<open>notif.ctrl.Config().(Updateable)\<close>: whether a configuration
  value has an \<^verbatim>\<open>UpdateConfig\<close> method of its own, and which.
\<close>

type_synonym ('c, 'x) AsUpdateable =
  "'c \<Rightarrow> (('c, 'x) Control \<Rightarrow> 'x \<Rightarrow> error option \<times> 'x) option"

text \<open>Of \<^verbatim>\<open>*fsnotify.Watcher\<close> the notifier calls \<^verbatim>\<open>Add\<close>; of an event it reads both fields.\<close>

record 'x Watcher =
  Add :: "string \<Rightarrow> 'x \<Rightarrow> error option \<times> 'x"

datatype Op = Create | Write | Remove | Rename | Chmod

record Event =
  Name :: string
  Op :: "Op set"

definition Has :: "Event \<Rightarrow> Op \<Rightarrow> bool" where
  "Has event op = (op \<in> Op event)"

text \<open>
  The \<^verbatim>\<open>Notifier\<close> struct. \<open>watcher\<close> is a pointer, nil (\<open>None\<close>) until \<^verbatim>\<open>Watch\<close> sets
  it. \<open>ctrl\<close> points to the controller the caller also holds; the model keeps that one
  controller here. The context and the logger are left out as for \<open>Control\<close>.
\<close>

record ('c, 'x) Notifier =
  watcher :: "'x Watcher option"
  services :: "('c, 'x) Updateable list"
  aborters :: "'x Aborter list"
  ctrl :: "('c, 'x) Control"
  wantdown :: bool

definition NewNotifier :: "('c, 'x) Control \<Rightarrow> ('c, 'x) Notifier" where
  "NewNotifier c = \<lparr>watcher = None, services = [], aborters = [], ctrl = c, wantdown = False\<rparr>"

definition RegisterServices ::
  "('c, 'x) Updateable list \<Rightarrow> ('c, 'x) Notifier \<Rightarrow> 'x World \<Rightarrow> ('c, 'x) Notifier \<times> 'x World" where
  "RegisterServices svc notif w = (notif\<lparr>services := services notif @ svc\<rparr>, w)"

definition RegisterAborters ::
  "'x Aborter list \<Rightarrow> ('c, 'x) Notifier \<Rightarrow> 'x World \<Rightarrow> ('c, 'x) Notifier \<times> 'x World" where
  "RegisterAborters svc notif w = (notif\<lparr>aborters := aborters notif @ svc\<rparr>, w)"

text \<open>
  The inner loop of \<^verbatim>\<open>Notify\<close> over \<^verbatim>\<open>notif.aborters\<close>. Its body calls \<^verbatim>\<open>Abort\<close> and
  then returns from \<^verbatim>\<open>Notify\<close>, so the loop ends in its first iteration.
\<close>

fun Notify_aborters :: "error \<Rightarrow> 'x Aborter list \<Rightarrow> 'x World \<Rightarrow> 'x World" where
  "Notify_aborters err [] w = w"
| "Notify_aborters err (svc # rest) w =
     called (AbortCall (aborter svc) err) (w\<lparr>ext := Abort svc err (ext w)\<rparr>)"

text \<open>The outer loop of \<^verbatim>\<open>Notify\<close> over \<^verbatim>\<open>notif.services\<close>.\<close>

fun Notify_services ::
  "('c, 'x) Updateable list \<Rightarrow> ('c, 'x) Notifier \<Rightarrow> 'x World \<Rightarrow>
     error option \<times> ('c, 'x) Notifier \<times> 'x World" where
  "Notify_services [] notif w = (None, notif, w)"
| "Notify_services (svc # rest) notif w =
     (case UpdateConfig svc (ctrl notif) (ext w) of
        (err, x') \<Rightarrow>
          let w1 = called (UpdateConfigCall (service svc)) (w\<lparr>ext := x'\<rparr>) in
          (case err of
             None \<Rightarrow> Notify_services rest notif w1
           | Some e \<Rightarrow>
               if \<not> wantdown notif
               then (Some e, notif\<lparr>wantdown := True\<rparr>, Notify_aborters e (aborters notif) w1)
               else (Some e, notif, w1)))"

definition Notify ::
  "('c, 'x) AsUpdateable \<Rightarrow> ('c, 'x) Notifier \<Rightarrow> 'x World \<Rightarrow>
     error option \<times> ('c, 'x) Notifier \<times> 'x World" where
  "Notify asU notif w =
     (let w1 =
        (case Config (ctrl notif) of
           None \<Rightarrow> w
         | Some cfg \<Rightarrow>
             (case asU cfg of
                None \<Rightarrow> w
              | Some upd \<Rightarrow>
                  called ConfigUpdateCall (w\<lparr>ext := snd (upd (ctrl notif) (ext w))\<rparr>)))
      in Notify_services (services notif) notif w1)"

text \<open>
  \<^verbatim>\<open>Watch\<close>, with \<^verbatim>\<open>fsnotify.NewWatcher\<close> as a parameter. Starting the goroutine of
  \<^verbatim>\<open>watch\<close> has no effect on the state; what that loop does with one event it receives
  is \<open>watch_event\<close> below.
\<close>

definition Watch ::
  "('x \<Rightarrow> (error + 'x Watcher) \<times> 'x) \<Rightarrow> ('c, 'x) Notifier \<Rightarrow> 'x World \<Rightarrow>
     error option \<times> ('c, 'x) Notifier \<times> 'x World" where
  "Watch NewWatcher notif w =
     (case NewWatcher (ext w) of
        (Inl err, x') \<Rightarrow>
          (Some (Errorf ''setting up new watcher for config'' err), notif, w\<lparr>ext := x'\<rparr>)
      | (Inr wt, x') \<Rightarrow>
          let notif1 = notif\<lparr>watcher := Some wt\<rparr>;
              w1 = w\<lparr>ext := x'\<rparr>;
              fn = filename (ctrl notif1) w1
          in (case Add wt fn (ext w1) of
                (Some err, x'') \<Rightarrow>
                  (Some (Errorf ''adding config file name to watcher'' err), notif1,
                   called (AddCall fn) (w1\<lparr>ext := x''\<rparr>))
              | (None, x'') \<Rightarrow> (None, notif1, called (AddCall fn) (w1\<lparr>ext := x''\<rparr>))))"

definition modify ::
  "'c Differ \<Rightarrow> ('c, 'x) AsUpdateable \<Rightarrow> Event \<Rightarrow> ('c, 'x) Notifier \<Rightarrow> 'x World \<Rightarrow>
     ('c, 'x) Notifier \<times> 'x World" where
  "modify Diff asU event notif w =
     (let w0 = logf Debug ''configuration modified'' [StringAttr ''filename'' (Name event)] w in
      case readConfig Diff (ctrl notif) w0 of
        (err, c, w1) \<Rightarrow>
          let w2 =
                (case err of
                   None \<Rightarrow> w1
                 | Some e \<Rightarrow> logf Warn ''error reloading config'' [ErrorAttr ''error'' e] w1)
          in (case Notify asU (notif\<lparr>ctrl := c\<rparr>) w2 of (_, notif', w3) \<Rightarrow> (notif', w3)))"

text \<open>
  \<^verbatim>\<open>time.Duration\<close> counts nanoseconds. The factor of the delay is
  \<^verbatim>\<open>int64(math.Pow(1.5, float64(attempt)))\<close>: the power \<open>3^n / 2^n\<close> is a binary fraction
  with a numerator below \<open>2^53\<close> for \<open>n \<le> 33\<close>, so \<^verbatim>\<open>math.Pow\<close> computes it exactly, and the
  conversion to \<^verbatim>\<open>int64\<close> drops its fraction. The notifier builds closures for the
  attempts 0 to 11 only.
\<close>

definition Millisecond :: int where
  "Millisecond = 1000000"

definition int64_Pow_multiplier :: "nat \<Rightarrow> int" where
  "int64_Pow_multiplier attempt = 3 ^ attempt div 2 ^ attempt"

definition readdWatcher_delay :: "nat \<Rightarrow> int" where
  "readdWatcher_delay attempt = (500 * Millisecond) * int64_Pow_multiplier attempt"

text \<open>
  Running the closure that \<^verbatim>\<open>readdWatcher(attempt)\<close> returns. It dereferences
  \<^verbatim>\<open>notif.watcher\<close>: on a nil watcher the program panics (\<open>None\<close>).
\<close>

definition readdWatcher :: "nat \<Rightarrow> ('c, 'x) Notifier \<Rightarrow> 'x World \<Rightarrow> 'x World option" where
  "readdWatcher attempt notif w =
     (let delay = readdWatcher_delay attempt in
      case watcher notif of
        None \<Rightarrow> None
      | Some wt \<Rightarrow>
          let fn = filename (ctrl notif) w in
          (case Add wt fn (ext w) of
             (err, x') \<Rightarrow>
               let w1 = called (AddCall fn) (w\<lparr>ext := x'\<rparr>) in
               (case err of
                  None \<Rightarrow> Some w1
                | Some e \<Rightarrow>
                    if attempt > 10
                    then Some (logf Warn ''error re-adding config file watcher; disable watching''
                                 [ErrorAttr ''error'' e] w1)
                    else
                      let w2 = logf Warn ''error re-adding config file watcher''
                                 [ErrorAttr ''error'' e] w1
                      in Some (w2\<lparr>timers := timers w2 @ [(delay, attempt + 1)]\<rparr>))))"

text \<open>The runtime runs the oldest pending closure of \<^verbatim>\<open>time.AfterFunc\<close>.\<close>

definition AfterFunc_fire :: "('c, 'x) Notifier \<Rightarrow> 'x World \<Rightarrow> 'x World option" where
  "AfterFunc_fire notif w =
     (case timers w of
        [] \<Rightarrow> Some w
      | (delay, attempt) # rest \<Rightarrow> readdWatcher attempt notif (w\<lparr>timers := rest\<rparr>))"

definition replace ::
  "'c Differ \<Rightarrow> ('c, 'x) AsUpdateable \<Rightarrow> Event \<Rightarrow> ('c, 'x) Notifier \<Rightarrow> 'x World \<Rightarrow>
     (('c, 'x) Notifier \<times> 'x World) option" where
  "replace Diff asU event notif w =
     (let w0 = logf Debug ''configuration modified'' [StringAttr ''filename'' (Name event)] w in
      case readdWatcher 0 notif w0 of
        None \<Rightarrow> None
      | Some w1 \<Rightarrow>
          (case readConfig Diff (ctrl notif) w1 of
             (err, c, w2) \<Rightarrow>
               let w3 =
                     (case err of
                        None \<Rightarrow> w2
                      | Some e \<Rightarrow> logf Warn ''error reloading config'' [ErrorAttr ''error'' e] w2)
               in (case Notify asU (notif\<lparr>ctrl := c\<rparr>) w3 of
                     (_, notif', w4) \<Rightarrow> Some (notif', w4))))"

text \<open>What the loop of \<^verbatim>\<open>watch\<close> does with an event it has received.\<close>

definition watch_event ::
  "'c Differ \<Rightarrow> ('c, 'x) AsUpdateable \<Rightarrow> Event \<Rightarrow> ('c, 'x) Notifier \<Rightarrow> 'x World \<Rightarrow>
     (('c, 'x) Notifier \<times> 'x World) option" where
  "watch_event Diff asU event notif w =
     (if Has event Write then Some (modify Diff asU event notif w)
      else if Has event Remove then replace Diff asU event notif w
      else Some (notif, w))"

section \<open>A small application, for evaluating the code\<close>

text \<open>
  Configurations are numbers and have no \<^verbatim>\<open>UpdateConfig\<close> of their own. The loader
  returns the configuration 7 on every call. The external state counts the calls of the
  watcher's \<^verbatim>\<open>Add\<close> that will still fail because the file is absent. The differ
  reports no change between equal values and one changed path otherwise.
\<close>

definition ex_loader :: "(nat, nat) ConfigLoader" where
  "ex_loader = \<lparr>Filename = (\<lambda>x. ''config.json''), Load = (\<lambda>x. (Inr (Some 7), x))\<rparr>"

definition ex_Diff :: "nat Differ" where
  "ex_Diff a b = (if a = b then Inr [] else Inr [Change [''Value'']])"

definition ex_asU :: "(nat, nat) AsUpdateable" where
  "ex_asU cfg = None"

definition ex_ctrl :: "(nat, nat) Control" where
  "ex_ctrl = \<lparr>changed = [''*''], loader = ex_loader, current = Some 7, previous = None\<rparr>"

definition ex_world :: "nat \<Rightarrow> nat World" where
  "ex_world x = \<lparr>ext = x, calls = [], log = [], timers = []\<rparr>"

definition ex_ok :: "nat \<Rightarrow> (nat, nat) Updateable" where
  "ex_ok i = \<lparr>service = i, UpdateConfig = (\<lambda>c x. (None, x))\<rparr>"

definition ex_refuse :: "nat \<Rightarrow> (nat, nat) Updateable" where
  "ex_refuse i = \<lparr>service = i, UpdateConfig = (\<lambda>c x. (Some (Err ''refused''), x))\<rparr>"

definition ex_aborter :: "nat \<Rightarrow> nat Aborter" where
  "ex_aborter i = \<lparr>aborter = i, Abort = (\<lambda>e x. x)\<rparr>"

definition ex_watcher :: "nat Watcher" where
  "ex_watcher =
     \<lparr>Add = (\<lambda>fn x. if x > 0 then (Some (Err ''no such file''), x - 1) else (None, x))\<rparr>"

definition ex_event :: "Op \<Rightarrow> Event" where
  "ex_event op = \<lparr>Name = ''config.json'', Op = {op}\<rparr>"

definition ex_notifier ::
  "(nat, nat) Updateable list \<Rightarrow> nat Aborter list \<Rightarrow> (nat, nat) Notifier" where
  "ex_notifier svc ab =
     \<lparr>watcher = Some ex_watcher, services = svc, aborters = ab, ctrl = ex_ctrl, wantdown = False\<rparr>"

definition ex_bad_loader :: "(nat, nat) ConfigLoader" where
  "ex_bad_loader =
     \<lparr>Filename = (\<lambda>x. ''config.json''), Load = (\<lambda>x. (Inl (Err ''unreadable''), x))\<rparr>"

text \<open>A loader whose first call returns the nil configuration and no error.\<close>

definition ex_nil_loader :: "(nat, nat) ConfigLoader" where
  "ex_nil_loader =
     \<lparr>Filename = (\<lambda>x. ''config.json''),
      Load = (\<lambda>x. if x = 0 then (Inr None, 1) else (Inr (Some 7), x))\<rparr>"

definition ex_bad_Diff :: "nat Differ" where
  "ex_bad_Diff a b = Inl (Err ''incomparable'')"

text \<open>
  A file that is absent while the external state is positive: loading fails then, and
  yields the configuration 8 once the file is back. A notifier watching it, with one
  service registered and 7 as the current configuration; the world after a remove event
  handled while the file stays absent for two calls of \<^verbatim>\<open>Add\<close>, and the world
  after the first retry.
\<close>

definition ex_absent_loader :: "(nat, nat) ConfigLoader" where
  "ex_absent_loader =
     \<lparr>Filename = (\<lambda>x. ''config.json''),
      Load = (\<lambda>x. if x > 0 then (Inl (Err ''no such file''), x) else (Inr (Some 8), x))\<rparr>"

definition ex_watching :: "(nat, nat) Notifier" where
  "ex_watching = (ex_notifier [ex_ok 1] [])\<lparr>ctrl := ex_ctrl\<lparr>loader := ex_absent_loader\<rparr>\<rparr>"

definition ex_removed :: "nat World" where
  "ex_removed =
     \<lparr>ext = 1, calls = [AddCall ''config.json'', LoadCall, UpdateConfigCall 1],
      log = [LogEntry Debug ''configuration modified'' [StringAttr ''filename'' ''config.json''],
             LogEntry Warn ''error re-adding config file watcher''
               [ErrorAttr ''error'' (Err ''no such file'')],
             LogEntry Warn ''error reloading config''
               [ErrorAttr ''error'' (Errorf ''loading configuration'' (Err ''no such file''))]],
      timers = [(500000000, 1)]\<rparr>"

definition ex_retried :: "nat World" where
  "ex_retried =
     ex_removed
       \<lparr>ext := 0,
        calls := calls ex_removed @ [AddCall ''config.json''],
        log := log ex_removed @
          [LogEntry Warn ''error re-adding config file watcher''
             [ErrorAttr ''error'' (Err ''no such file'')]],
        timers := [(500000000, 2)]\<rparr>"

section \<open>Worlds that differ in the log only\<close>

definition same_effects :: "'x World \<Rightarrow> 'x World \<Rightarrow> bool" where
  "same_effects w w' = (ext w = ext w' \<and> calls w = calls w' \<and> timers w = timers w')"

section \<open>Properties of the controller\<close>

lemmas ex_defs =
  ex_loader_def ex_Diff_def ex_asU_def ex_ctrl_def ex_world_def ex_ok_def ex_refuse_def
  ex_aborter_def ex_watcher_def ex_event_def ex_notifier_def

lemma HasPrefix_prefix: "HasPrefix s pre \<longleftrightarrow> prefix pre s"
  unfolding HasPrefix_def
proof
  assume "length pre \<le> length s \<and> take (length pre) s = pre"
  then have "s = pre @ drop (length pre) s"
    by (metis append_take_drop_id)
  then show "prefix pre s"
    by (metis prefixI)
next
  assume "prefix pre s"
  then obtain r where "s = pre @ r"
    by (auto simp: prefix_def)
  then show "length pre \<le> length s \<and> take (length pre) s = pre"
    by simp
qed

lemma HasSuffix_suffix: "HasSuffix s suf \<longleftrightarrow> suffix suf s"
  unfolding HasSuffix_def
proof
  assume a: "length suf \<le> length s \<and> drop (length s - length suf) s = suf"
  have "s = take (length s - length suf) s @ drop (length s - length suf) s"
    by simp
  with a have "s = take (length s - length suf) s @ suf"
    by simp
  then show "suffix suf s"
    by (metis suffixI)
next
  assume "suffix suf s"
  then obtain r where "s = r @ suf"
    by (auto simp: suffix_def)
  then show "length suf \<le> length s \<and> drop (length s - length suf) s = suf"
    by simp
qed

lemma CutSuffix_append: "CutSuffix (q @ suf) suf = (q, True)"
  by (simp add: CutSuffix_def HasSuffix_suffix suffix_def)

lemma CutSuffix_no_suffix: "\<not> suffix suf s \<Longrightarrow> CutSuffix s suf = (s, False)"
  by (simp add: CutSuffix_def HasSuffix_suffix)

lemma IsChanged_loop_iff:
  "IsChanged_loop op entries \<longleftrightarrow> ''*'' \<in> set entries \<or> (\<exists>e \<in> set entries. op e)"
  by (induction entries) auto

text \<open>
  C4. \<open>IsChanged p\<close> is true exactly when the change set holds the sentinel \<open>*\<close>, or,
  for a \<open>p\<close> that does not end in \<open>.*\<close>, an entry equal to \<open>p\<close>, or, for \<open>p = q.*\<close>, an
  entry that starts with \<open>q\<close> followed by a dot. The test is on prefixes: \<open>Foo.*\<close> matches
  the entry \<open>Foo.Bar\<close> and does not match \<open>FooBar\<close>.
\<close>

theorem IsChanged_iff:
  "(IsChanged c p \<longleftrightarrow>
      ''*'' \<in> set (changed c)
      \<or> (\<not> suffix ''.*'' p \<and> p \<in> set (changed c))
      \<or> (\<exists>q. p = q @ ''.*'' \<and> (\<exists>e \<in> set (changed c). prefix (q @ ''.'') e)))
   \<and> IsChanged (c\<lparr>changed := [''Foo.Bar'']\<rparr>) ''Foo.*''
   \<and> \<not> IsChanged (c\<lparr>changed := [''FooBar'']\<rparr>) ''Foo.*''"
proof (intro conjI)
  show "IsChanged c p \<longleftrightarrow>
      ''*'' \<in> set (changed c)
      \<or> (\<not> suffix ''.*'' p \<and> p \<in> set (changed c))
      \<or> (\<exists>q. p = q @ ''.*'' \<and> (\<exists>e \<in> set (changed c). prefix (q @ ''.'') e))"
  proof (cases "suffix ''.*'' p")
    case True
    then obtain q where q: "p = q @ ''.*''"
      by (auto simp: suffix_def)
    have "IsChanged c p \<longleftrightarrow>
        ''*'' \<in> set (changed c) \<or> (\<exists>e \<in> set (changed c). prefix (q @ ''.'') e)"
      unfolding IsChanged_def q CutSuffix_append
      by (simp add: IsChanged_loop_iff HasPrefix_prefix)
    with True q show ?thesis
      by auto
  next
    case False
    then have no: "\<And>q. p \<noteq> q @ ''.*''"
      by (auto simp: suffix_def)
    have "IsChanged c p \<longleftrightarrow> ''*'' \<in> set (changed c) \<or> p \<in> set (changed c)"
      unfolding IsChanged_def CutSuffix_no_suffix [OF False]
      by (auto simp: IsChanged_loop_iff)
    with False no show ?thesis
      by auto
  qed
next
  have "CutSuffix ''Foo.*'' ''.*'' = (''Foo'', True)"
    using CutSuffix_append [of "''Foo''" "''.*''"] by simp
  then show "IsChanged (c\<lparr>changed := [''Foo.Bar'']\<rparr>) ''Foo.*''"
    by (simp add: IsChanged_def HasPrefix_def)
next
  have "CutSuffix ''Foo.*'' ''.*'' = (''Foo'', True)"
    using CutSuffix_append [of "''Foo''" "''.*''"] by simp
  then show "\<not> IsChanged (c\<lparr>changed := [''FooBar'']\<rparr>) ''Foo.*''"
    by (simp add: IsChanged_def HasPrefix_def)
qed


text \<open>
  The repository's test \<^verbatim>\<open>TestReadConfig\<close>: after the first load every query is
  answered with true; after a reload whose diff is the one path \<open>Three.0.Thirty\<close> the
  ten queries of the test are answered as the test expects.
\<close>

lemma TestReadConfig_second:
  assumes "Load (loader c) (ext w) = (Inr (Some new), x')"
    and "current c = Some old"
    and "D (Some old) (Some new) = Inr [Change [''Three'', ''0'', ''Thirty'']]"
  shows "changed (fst (snd (readConfig D c w))) = [''Three.0.Thirty'']"
    and "map (IsChanged (fst (snd (readConfig D c w))))
           [''*'', ''One'', ''Two'', ''Two.*'', ''Two.Twenty'', ''Three'', ''Three.*'',
            ''Three.0.Thirty'', ''Three.0.Thirtyone'', ''Three.0.Thirtyone.Threehundredandten''] =
         [False, False, False, False, False, False, True, True, False, False]"
proof -
  from assms show ch: "changed (fst (snd (readConfig D c w))) = [''Three.0.Thirty'']"
    by (simp add: readConfig_def called_def logf_def Let_def)
  show "map (IsChanged (fst (snd (readConfig D c w))))
           [''*'', ''One'', ''Two'', ''Two.*'', ''Two.Twenty'', ''Three'', ''Three.*'',
            ''Three.0.Thirty'', ''Three.0.Thirtyone'', ''Three.0.Thirtyone.Threehundredandten''] =
         [False, False, False, False, False, False, True, True, False, False]"
    by (simp add: IsChanged_def ch CutSuffix_def HasSuffix_def HasPrefix_def)
qed

lemma TestReadConfig_first:
  assumes "New D (Some l) w = (Inr c, w')"
  shows "changed c = [''*'']" and "IsChanged c item"
proof -
  from assms show ch: "changed c = [''*'']"
    by (auto simp add: New_def readConfig_def called_def logf_def Let_def
        split: if_splits prod.splits sum.splits option.splits)
  then show "IsChanged c item"
    by (simp add: IsChanged_def split: prod.splits bool.splits)
qed

text \<open>
  C6. When the loader's \<open>Load\<close> returns an error, the reload returns that error wrapped
  and leaves the controller as it was: previous, current and the change set are those
  of before the call. Of the world, the loader's state and the record of the call
  change, and nothing is logged.
\<close>

theorem readConfig_load_error:
  assumes "Load (loader c) (ext w) = (Inl err, x')"
  shows "readConfig D c w =
           (Some (Errorf ''loading configuration'' err), c,
            w\<lparr>ext := x', calls := calls w @ [LoadCall]\<rparr>)"
  using assms by (simp add: readConfig_def called_def)

theorem readConfig_load_error_witness:
  "Load (loader (ex_ctrl\<lparr>loader := ex_bad_loader\<rparr>)) (ext (ex_world 0)) =
     (Inl (Err ''unreadable''), 0)
   \<and> readConfig ex_Diff (ex_ctrl\<lparr>loader := ex_bad_loader\<rparr>) (ex_world 0) =
       (Some (Errorf ''loading configuration'' (Err ''unreadable'')),
        ex_ctrl\<lparr>loader := ex_bad_loader\<rparr>,
        \<lparr>ext = 0, calls = [LoadCall], log = [], timers = []\<rparr>)"
proof -
  have h: "Load (loader (ex_ctrl\<lparr>loader := ex_bad_loader\<rparr>)) (ext (ex_world 0)) =
             (Inl (Err ''unreadable''), 0)"
    by (simp add: ex_bad_loader_def ex_world_def)
  show ?thesis
    using h readConfig_load_error [OF h, of ex_Diff] by (simp add: ex_world_def)
qed

text \<open>
  C5. When the loader succeeds, a previous configuration exists and the diff of the
  previous and the new configuration returns an error, the reload logs the failure and
  reports success; previous and current have advanced to the new pair, and the change
  set is the one of before the call.
\<close>

theorem readConfig_diff_error:
  assumes "Load (loader c) (ext w) = (Inr config, x')"
    and "current c \<noteq> None"
    and "D (current c) config = Inl derr"
  shows "readConfig D c w =
           (None, c\<lparr>previous := current c, current := config\<rparr>,
            w\<lparr>ext := x', calls := calls w @ [LoadCall],
              log := log w @
                [LogEntry Warn ''change diff unsuccessful'' [ErrorAttr ''error'' derr]]\<rparr>)
         \<and> changed (fst (snd (readConfig D c w))) = changed c"
proof -
  from assms(2) obtain old where old: "current c = Some old"
    by auto
  from assms(1,3) show ?thesis
    by (simp add: readConfig_def called_def logf_def Let_def old)
qed

theorem readConfig_diff_error_witness:
  "Load (loader ex_ctrl) (ext (ex_world 0)) = (Inr (Some 7), 0)
   \<and> current ex_ctrl \<noteq> None
   \<and> ex_bad_Diff (current ex_ctrl) (Some 7) = Inl (Err ''incomparable'')
   \<and> readConfig ex_bad_Diff ex_ctrl (ex_world 0) =
       (None, ex_ctrl\<lparr>previous := Some 7, current := Some 7\<rparr>,
        \<lparr>ext = 0, calls = [LoadCall],
         log = [LogEntry Warn ''change diff unsuccessful''
                  [ErrorAttr ''error'' (Err ''incomparable'')]],
         timers = []\<rparr>)
   \<and> changed (fst (snd (readConfig ex_bad_Diff ex_ctrl (ex_world 0)))) = [''*'']"
proof -
  have h1: "Load (loader ex_ctrl) (ext (ex_world 0)) = (Inr (Some 7), 0)"
    by (simp add: ex_ctrl_def ex_loader_def ex_world_def)
  have h2: "current ex_ctrl \<noteq> None"
    by (simp add: ex_ctrl_def)
  have h3: "ex_bad_Diff (current ex_ctrl) (Some 7) = Inl (Err ''incomparable'')"
    by (simp add: ex_bad_Diff_def)
  have c: "current ex_ctrl = Some 7" "changed ex_ctrl = [''*'']"
    by (simp_all add: ex_ctrl_def)
  show ?thesis
    using h1 h2 h3
      readConfig_diff_error [where D = ex_bad_Diff and c = ex_ctrl and w = "ex_world 0"
        and config = "Some 7" and x' = 0 and derr = "Err ''incomparable''"]
    by (simp add: ex_world_def c)
qed

text \<open>
  C10. When \<open>Load\<close> returns the nil configuration and no error, the reload succeeds and
  stores nil as current, so \<open>Config\<close> returns nil. The next reload whose load succeeds,
  in whatever world it runs, sets the change set to the single sentinel \<open>*\<close>, whatever
  the differ would answer: it is not consulted, as on a first load.
\<close>

theorem readConfig_nil_config:
  assumes "Load (loader c) (ext w) = (Inr None, x1)"
    and "Load (loader c) (ext w2) = (Inr cfg, x2)"
  shows "let c1 = fst (snd (readConfig D c w)) in
           fst (readConfig D c w) = None
         \<and> current c1 = None
         \<and> Config c1 = None
         \<and> readConfig D2 c1 w2 =
             (None, c1\<lparr>previous := None, current := cfg, changed := [''*'']\<rparr>,
              w2\<lparr>ext := x2, calls := calls w2 @ [LoadCall]\<rparr>)"
  using assms
  by (auto simp add: readConfig_def called_def logf_def Let_def Config_def split: sum.splits)

theorem readConfig_nil_config_witness:
  "Load (loader (ex_ctrl\<lparr>loader := ex_nil_loader\<rparr>)) (ext (ex_world 0)) = (Inr None, 1)
   \<and> Load (loader (ex_ctrl\<lparr>loader := ex_nil_loader\<rparr>)) (ext (ex_world 1)) = (Inr (Some 7), 1)
   \<and> fst (readConfig ex_Diff (ex_ctrl\<lparr>loader := ex_nil_loader\<rparr>) (ex_world 0)) = None
   \<and> Config (fst (snd (readConfig ex_Diff (ex_ctrl\<lparr>loader := ex_nil_loader\<rparr>) (ex_world 0)))) = None
   \<and> changed (fst (snd (readConfig ex_Diff (ex_ctrl\<lparr>loader := ex_nil_loader\<rparr>) (ex_world 0)))) = [''Value'']
   \<and> changed (fst (snd (readConfig ex_bad_Diff
         (fst (snd (readConfig ex_Diff (ex_ctrl\<lparr>loader := ex_nil_loader\<rparr>) (ex_world 0))))
         (ex_world 1)))) = [''*'']"
proof -
  let ?c = "ex_ctrl\<lparr>loader := ex_nil_loader\<rparr>"
  have h1: "Load (loader ?c) (ext (ex_world 0)) = (Inr None, 1)"
    by (simp add: ex_nil_loader_def ex_world_def)
  have h2: "Load (loader ?c) (ext (ex_world 1)) = (Inr (Some 7), 1)"
    by (simp add: ex_nil_loader_def ex_world_def)
  have v: "changed (fst (snd (readConfig ex_Diff ?c (ex_world 0)))) = [''Value'']"
    by (simp add: readConfig_def called_def logf_def Let_def ex_nil_loader_def ex_defs)
  from readConfig_nil_config [OF h1 h2, of ex_Diff ex_bad_Diff] h1 h2 v show ?thesis
    by (simp add: Let_def)
qed

section \<open>Properties of the notifier\<close>

lemma Notify_aborters_take: "Notify_aborters e ab w = Notify_aborters e (take 1 ab) w"
  by (cases ab) simp_all

lemma Notify_services_accepted:
  "fst (Notify_services svc n w) = None \<Longrightarrow>
     Notify_services svc n w = (None, n, snd (snd (Notify_services svc n w)))
   \<and> calls (snd (snd (Notify_services svc n w))) =
       calls w @ map (\<lambda>s. UpdateConfigCall (service s)) svc"
proof (induction svc arbitrary: w)
  case Nil
  then show ?case by simp
next
  case (Cons s svc)
  obtain err x' where u: "UpdateConfig s (ctrl n) (ext w) = (err, x')"
    by (cases "UpdateConfig s (ctrl n) (ext w)")
  show ?case
  proof (cases err)
    case None
    let ?v = "called (UpdateConfigCall (service s)) (w\<lparr>ext := x'\<rparr>)"
    from Cons.prems u None have "fst (Notify_services svc n ?v) = None"
      by simp
    from Cons.IH [OF this] u None show ?thesis
      by (simp add: called_def)
  next
    case (Some e)
    with Cons.prems u show ?thesis
      by (simp add: Let_def split: if_splits)
  qed
qed

lemma Notify_services_append:
  "Notify_services (pre @ post) n w =
     (case Notify_services pre n w of
        (None, n', w') \<Rightarrow> Notify_services post n' w'
      | (Some e, n', w') \<Rightarrow> (Some e, n', w'))"
proof (induction pre arbitrary: w)
  case Nil
  then show ?case by simp
next
  case (Cons s pre)
  obtain err x' where u: "UpdateConfig s (ctrl n) (ext w) = (err, x')"
    by (cases "UpdateConfig s (ctrl n) (ext w)")
  show ?case
    using u Cons.IH by (cases err) (simp_all add: Let_def)
qed

lemma Notify_services_refused:
  assumes "Notify_services pre n w = (None, n, w1)"
    and "UpdateConfig s (ctrl n) (ext w1) = (Some e, x')"
    and "\<not> wantdown n"
  shows "Notify_services (pre @ s # post) n w =
           (Some e, n\<lparr>wantdown := True\<rparr>,
            Notify_aborters e (take 1 (aborters n))
              (called (UpdateConfigCall (service s)) (w1\<lparr>ext := x'\<rparr>)))"
  using assms Notify_aborters_take [of e "aborters n"]
  by (simp add: Notify_services_append Let_def)

lemma readdWatcher_retry:
  assumes "watcher n = Some wt"
    and "Add wt (filename (ctrl n) w) (ext w) = (Some e, x')"
    and "attempt \<le> 10"
  shows "\<exists>v. readdWatcher attempt n w = Some v
           \<and> timers v = timers w @ [(readdWatcher_delay attempt, attempt + 1)]"
  using assms by (simp add: readdWatcher_def called_def logf_def Let_def)

lemma readdWatcher_gives_up:
  assumes "watcher n = Some wt"
    and "Add wt (filename (ctrl n) w) (ext w) = (Some e, x')"
    and "attempt > 10"
  shows "\<exists>v. readdWatcher attempt n w = Some v \<and> timers v = timers w
           \<and> log v = log w @ [LogEntry Warn ''error re-adding config file watcher; disable watching''
                                [ErrorAttr ''error'' e]]"
  using assms by (simp add: readdWatcher_def called_def logf_def Let_def)

lemma readConfig_same:
  assumes "same_effects w w'"
  shows "fst (readConfig D c w) = fst (readConfig D c w')
       \<and> fst (snd (readConfig D c w)) = fst (snd (readConfig D c w'))
       \<and> same_effects (snd (snd (readConfig D c w))) (snd (snd (readConfig D c w')))"
  using assms
  by (auto simp add: readConfig_def same_effects_def called_def logf_def Let_def
      split: prod.splits sum.splits)

lemma Notify_aborters_same:
  "same_effects w w' \<Longrightarrow> same_effects (Notify_aborters e ab w) (Notify_aborters e ab w')"
  by (cases ab) (simp_all add: same_effects_def called_def)

lemma Notify_services_same:
  "same_effects w w' \<Longrightarrow>
     fst (Notify_services svc n w) = fst (Notify_services svc n w')
   \<and> fst (snd (Notify_services svc n w)) = fst (snd (Notify_services svc n w'))
   \<and> same_effects (snd (snd (Notify_services svc n w))) (snd (snd (Notify_services svc n w')))"
proof (induction svc arbitrary: w w')
  case Nil
  then show ?case by simp
next
  case (Cons s svc)
  obtain err x' where u: "UpdateConfig s (ctrl n) (ext w) = (err, x')"
    by (cases "UpdateConfig s (ctrl n) (ext w)")
  from Cons.prems have e: "ext w' = ext w"
    by (simp add: same_effects_def)
  let ?v = "called (UpdateConfigCall (service s)) (w\<lparr>ext := x'\<rparr>)"
  let ?v' = "called (UpdateConfigCall (service s)) (w'\<lparr>ext := x'\<rparr>)"
  from Cons.prems have s1: "same_effects ?v ?v'"
    by (simp add: same_effects_def called_def)
  show ?case
  proof (cases err)
    case None
    with u e Cons.IH [OF s1] show ?thesis
      by simp
  next
    case (Some a)
    with u e s1 Notify_aborters_same [OF s1, of a "aborters n"] show ?thesis
      by (simp add: Let_def)
  qed
qed

lemma Notify_same:
  assumes "same_effects w w'"
  shows "fst (Notify U n w) = fst (Notify U n w')
       \<and> fst (snd (Notify U n w)) = fst (snd (Notify U n w'))
       \<and> same_effects (snd (snd (Notify U n w))) (snd (snd (Notify U n w')))"
proof -
  let ?pre = "\<lambda>w. (case Config (ctrl n) of
           None \<Rightarrow> w
         | Some cfg \<Rightarrow>
             (case U cfg of
                None \<Rightarrow> w
              | Some upd \<Rightarrow>
                  called ConfigUpdateCall (w\<lparr>ext := snd (upd (ctrl n) (ext w))\<rparr>)))"
  from assms have "same_effects (?pre w) (?pre w')"
    by (auto simp add: same_effects_def called_def split: option.splits)
  from Notify_services_same [OF this] show ?thesis
    by (simp add: Notify_def)
qed

lemma readdWatcher_same:
  assumes "same_effects w w'" and "watcher n = Some wt"
  shows "\<exists>v v'. readdWatcher a n w = Some v \<and> readdWatcher a n w' = Some v' \<and> same_effects v v'"
  using assms
  by (auto simp add: readdWatcher_def same_effects_def called_def logf_def Let_def filename_def
      split: prod.splits option.splits)

lemma readdWatcher_calls:
  assumes "watcher n = Some wt"
  shows "\<exists>v. readdWatcher a n w = Some v \<and> calls v = calls w @ [AddCall (filename (ctrl n) w)]"
  using assms
  by (auto simp add: readdWatcher_def called_def logf_def Let_def
      split: prod.splits option.splits)

text \<open>
  C1, evaluated. Three services and two aborters are registered; the second service
  refuses the update and no failure was latched before. \<open>Notify\<close> returns the error,
  sets the latch, and does not call the third service; of the two aborters it calls the
  first only.
\<close>

theorem Notify_calls_first_aborter_only:
  "Notify ex_asU (ex_notifier [ex_ok 1, ex_refuse 2, ex_ok 3] [ex_aborter 1, ex_aborter 2]) (ex_world 0) =
     (Some (Err ''refused''),
      (ex_notifier [ex_ok 1, ex_refuse 2, ex_ok 3] [ex_aborter 1, ex_aborter 2])\<lparr>wantdown := True\<rparr>,
      \<lparr>ext = 0,
       calls = [UpdateConfigCall 1, UpdateConfigCall 2, AbortCall 1 (Err ''refused'')],
       log = [], timers = []\<rparr>)"
  by (simp add: Notify_def Config_def called_def ex_defs)

text \<open>
  C2, evaluated. The loader returns the configuration that is already current, so the
  reload after a write event, and after a remove event, leaves an empty change set;
  the registered service is notified all the same.
\<close>

theorem modify_notifies_without_change:
  "modify ex_Diff ex_asU (ex_event Write) (ex_notifier [ex_ok 1] []) (ex_world 0) =
     ((ex_notifier [ex_ok 1] [])\<lparr>ctrl := ex_ctrl\<lparr>previous := Some 7, current := Some 7, changed := []\<rparr>\<rparr>,
      \<lparr>ext = 0, calls = [LoadCall, UpdateConfigCall 1],
       log = [LogEntry Debug ''configuration modified'' [StringAttr ''filename'' ''config.json'']],
       timers = []\<rparr>)
   \<and> replace ex_Diff ex_asU (ex_event Remove) (ex_notifier [ex_ok 1] []) (ex_world 0) =
     Some ((ex_notifier [ex_ok 1] [])\<lparr>ctrl := ex_ctrl\<lparr>previous := Some 7, current := Some 7, changed := []\<rparr>\<rparr>,
      \<lparr>ext = 0, calls = [AddCall ''config.json'', LoadCall, UpdateConfigCall 1],
       log = [LogEntry Debug ''configuration modified'' [StringAttr ''filename'' ''config.json'']],
       timers = []\<rparr>)"
  by (simp add: modify_def replace_def readdWatcher_def filename_def readConfig_def Notify_def
      Config_def called_def logf_def Let_def ex_defs)

text \<open>
  C3, evaluated. After a \<open>Notify\<close> that completed, registering a second service appends
  it to the registry and calls nothing: the world, with its record of calls, is returned
  as it was.
\<close>

theorem RegisterServices_sends_nothing:
  "Notify ex_asU (ex_notifier [ex_ok 1] []) (ex_world 0) =
     (None, ex_notifier [ex_ok 1] [],
      \<lparr>ext = 0, calls = [UpdateConfigCall 1], log = [], timers = []\<rparr>)
   \<and> RegisterServices [ex_ok 2] (ex_notifier [ex_ok 1] [])
       \<lparr>ext = 0, calls = [UpdateConfigCall 1], log = [], timers = []\<rparr> =
     (ex_notifier [ex_ok 1, ex_ok 2] [],
      \<lparr>ext = 0, calls = [UpdateConfigCall 1], log = [], timers = []\<rparr>)"
  by (simp add: Notify_def RegisterServices_def Config_def called_def ex_defs)

text \<open>
  C7, evaluated. The delay computed for attempt 1 is 500 ms, not 750 ms, and that is
  the delay with which a failed attempt 1 schedules attempt 2.
\<close>

theorem readdWatcher_delay_truncated:
  "readdWatcher_delay 1 = 500 * Millisecond
   \<and> readdWatcher_delay 1 \<noteq> 750 * Millisecond
   \<and> readdWatcher 1 (ex_notifier [] []) (ex_world 1) =
       Some \<lparr>ext = 0, calls = [AddCall ''config.json''],
             log = [LogEntry Warn ''error re-adding config file watcher''
                      [ErrorAttr ''error'' (Err ''no such file'')]],
             timers = [(500000000, 2)]\<rparr>"
  by (simp add: readdWatcher_def readdWatcher_delay_def int64_Pow_multiplier_def Millisecond_def
      filename_def called_def logf_def Let_def ex_defs)

text \<open>
  C9, evaluated. Registering one aborter twice puts it into the registry twice; when a
  service refuses the update, that aborter is called once.
\<close>

theorem aborter_registered_twice_called_once:
  "aborters (fst (RegisterAborters [ex_aborter 5]
       (fst (RegisterAborters [ex_aborter 5] (ex_notifier [ex_refuse 1] []) (ex_world 0)))
       (ex_world 0))) = [ex_aborter 5, ex_aborter 5]
   \<and> Notify ex_asU (ex_notifier [ex_refuse 1] [ex_aborter 5, ex_aborter 5]) (ex_world 0) =
     (Some (Err ''refused''),
      (ex_notifier [ex_refuse 1] [ex_aborter 5, ex_aborter 5])\<lparr>wantdown := True\<rparr>,
      \<lparr>ext = 0, calls = [UpdateConfigCall 1, AbortCall 5 (Err ''refused'')],
       log = [], timers = []\<rparr>)"
  by (simp add: Notify_def RegisterAborters_def Config_def called_def ex_defs)

text \<open>
  C8, as the code has it. With a watcher set, a remove event makes the notifier try at
  once to add the file again (attempt 0, one call of \<open>Add\<close>), and then, whether or not
  that call succeeded, do what it does on a modify event in the world the attempt left:
  the same notifier and the same effects result, up to the order of the log. Running
  the closure of any attempt calls \<open>Add\<close> and nothing else: a retry that succeeds
  reloads nothing and notifies nobody.
\<close>

theorem replace_is_readd_then_modify:
  assumes "watcher notif = Some wt"
  shows "(\<exists>w1 n' w' w''.
            readdWatcher 0 notif w = Some w1
          \<and> calls w1 = calls w @ [AddCall (filename (ctrl notif) w)]
          \<and> replace D U ev notif w = Some (n', w')
          \<and> modify D U ev notif w1 = (n', w'')
          \<and> same_effects w' w'')
       \<and> (\<exists>v'. readdWatcher attempt notif wr = Some v'
              \<and> calls v' = calls wr @ [AddCall (filename (ctrl notif) wr)])"
proof -
  let ?l = "logf Debug ''configuration modified'' [StringAttr ''filename'' (Name ev)]"
  have s0: "same_effects (?l w) w"
    by (simp add: same_effects_def logf_def)
  from readdWatcher_same [OF s0 assms, of 0] obtain v v'
    where v: "readdWatcher 0 notif (?l w) = Some v" and v': "readdWatcher 0 notif w = Some v'"
      and vv: "same_effects v v'"
    by blast
  from readdWatcher_calls [OF assms, of 0 w] v'
  have cv: "calls v' = calls w @ [AddCall (filename (ctrl notif) w)]"
    by simp
  have s1: "same_effects v (?l v')"
    using vv by (simp add: same_effects_def logf_def)
  obtain r c u where rc: "readConfig D (ctrl notif) v = (r, c, u)"
    by (cases "readConfig D (ctrl notif) v")
  obtain r' c' u' where rc': "readConfig D (ctrl notif) (?l v') = (r', c', u')"
    by (cases "readConfig D (ctrl notif) (?l v')")
  from readConfig_same [OF s1, of D "ctrl notif"] rc rc'
  have eq: "r' = r" "c' = c" and su: "same_effects u u'"
    by simp_all
  let ?w = "\<lambda>v. (case r of None \<Rightarrow> v
              | Some e \<Rightarrow> logf Warn ''error reloading config'' [ErrorAttr ''error'' e] v)"
  from su have s2: "same_effects (?w u) (?w u')"
    by (cases r) (simp_all add: same_effects_def logf_def)
  obtain q n' z where nz: "Notify U (notif\<lparr>ctrl := c\<rparr>) (?w u) = (q, n', z)"
    by (cases "Notify U (notif\<lparr>ctrl := c\<rparr>) (?w u)")
  obtain q' n'' z' where nz': "Notify U (notif\<lparr>ctrl := c\<rparr>) (?w u') = (q', n'', z')"
    by (cases "Notify U (notif\<lparr>ctrl := c\<rparr>) (?w u')")
  from Notify_same [OF s2, of U "notif\<lparr>ctrl := c\<rparr>"] nz nz'
  have ne: "n'' = n'" and sz: "same_effects z z'"
    by simp_all
  have r1: "replace D U ev notif w = Some (n', z)"
    using v rc nz by (simp add: replace_def Let_def)
  have m1: "modify D U ev notif v' = (n', z')"
    using rc' nz' eq ne by (simp add: modify_def Let_def)
  from v' cv r1 m1 sz readdWatcher_calls [OF assms, of attempt wr] show ?thesis
    by blast
qed

theorem replace_is_readd_then_modify_witness:
  "watcher (ex_notifier [ex_ok 1] []) = Some ex_watcher
   \<and> (\<exists>w1 n' w' w''.
          readdWatcher 0 (ex_notifier [ex_ok 1] []) (ex_world 1) = Some w1
        \<and> calls w1 = calls (ex_world 1) @ [AddCall ''config.json'']
        \<and> replace ex_Diff ex_asU (ex_event Remove) (ex_notifier [ex_ok 1] []) (ex_world 1) =
            Some (n', w')
        \<and> modify ex_Diff ex_asU (ex_event Remove) (ex_notifier [ex_ok 1] []) w1 = (n', w'')
        \<and> same_effects w' w'')
   \<and> (\<exists>v'. readdWatcher 1 (ex_notifier [ex_ok 1] []) (ex_world 0) = Some v'
          \<and> calls v' = calls (ex_world 0) @ [AddCall ''config.json''])"
proof -
  have h: "watcher (ex_notifier [ex_ok 1] []) = Some ex_watcher"
    by (simp add: ex_notifier_def)
  have f: "filename (ctrl (ex_notifier [ex_ok 1] [])) w = ''config.json''" for w
    by (simp add: filename_def ex_defs)
  note t = replace_is_readd_then_modify
    [OF h, of "ex_world 1" ex_Diff ex_asU "ex_event Remove" 1 "ex_world 0", unfolded f]
  show ?thesis
    by (rule conjI [OF h t])
qed

text \<open>
  C8, the claim as stated, at a remove event after which the file stays absent for two
  calls of \<open>Add\<close>. The reload and the notification are done at once, after the failed
  attempt 0: the load fails, the controller keeps the configuration 7 and the service is
  notified. Attempt 1 fails, attempt 2 succeeds, and neither is followed by a reload or
  a notification: the file now holds 8 and the controller still answers 7.
\<close>

theorem replace_reloads_before_readd_succeeds:
  "replace ex_Diff ex_asU (ex_event Remove) ex_watching (ex_world 2) =
     Some (ex_watching, ex_removed)
   \<and> AfterFunc_fire ex_watching ex_removed = Some ex_retried
   \<and> AfterFunc_fire ex_watching ex_retried =
       Some (ex_retried\<lparr>calls := calls ex_retried @ [AddCall ''config.json''], timers := []\<rparr>)
   \<and> calls ex_retried @ [AddCall ''config.json''] =
       [AddCall ''config.json'', LoadCall, UpdateConfigCall 1,
        AddCall ''config.json'', AddCall ''config.json'']
   \<and> Load ex_absent_loader 0 = (Inr (Some 8), 0)
   \<and> Config (ctrl ex_watching) = Some 7"
  by (simp add: replace_def AfterFunc_fire_def readdWatcher_def readdWatcher_delay_def
      int64_Pow_multiplier_def Millisecond_def filename_def readConfig_def Notify_def
      Config_def called_def logf_def Let_def ex_defs ex_removed_def ex_retried_def
      ex_watching_def ex_absent_loader_def)

end
